theory Spec2Isabelle
  imports Complex_Main "HOL-Library.Sublist"
begin

section \<open>JavaScript values and strings\<close>

text \<open>
  The endpoint is a Netlify function written in JavaScript. Its values are modelled by
  the datatype below: what \<open>JSON.parse\<close> can produce, and \<open>undefined\<close>. Strings are
  lists of characters; an object is the list of its own properties in insertion order.
  A number stands for its exact finite value.
\<close>

datatype jsval =
    JUndefined
  | JNull
  | JBool bool
  | JNum rat
  | JStr string
  | JArr "jsval list"
  | JObj "(string \<times> jsval) list"

text \<open>Truthiness, as \<open>!x\<close>, \<open>x && y\<close> and \<open>x || y\<close> read it.\<close>

fun truthy :: "jsval \<Rightarrow> bool" where
  "truthy JUndefined = False"
| "truthy JNull = False"
| "truthy (JBool b) = b"
| "truthy (JNum r) = (r \<noteq> 0)"
| "truthy (JStr s) = (s \<noteq> [])"
| "truthy (JArr xs) = True"
| "truthy (JObj kvs) = True"

text \<open>\<open>a || b\<close>\<close>

definition js_or :: "jsval \<Rightarrow> jsval \<Rightarrow> jsval" where
  "js_or a b = (if truthy a then a else b)"

text \<open>
  Reading a property. On \<open>null\<close> and \<open>undefined\<close> the read throws a TypeError, which is
  tested by \<open>nullish\<close> before every read; on an object it is the own property or
  \<open>undefined\<close>; on every other value the names read by this program (\<open>job_title\<close>,
  \<open>job_description\<close>, \<open>city\<close>, \<open>work_arrangement\<close>, \<open>experience\<close>, \<open>company\<close>) are
  not defined by a prototype, so the read gives \<open>undefined\<close>.
\<close>

fun nullish :: "jsval \<Rightarrow> bool" where
  "nullish JUndefined = True"
| "nullish JNull = True"
| "nullish v = False"

fun field :: "jsval \<Rightarrow> string \<Rightarrow> jsval" where
  "field (JObj kvs) k = (case map_of kvs k of Some v \<Rightarrow> v | None \<Rightarrow> JUndefined)"
| "field v k = JUndefined"

text \<open>\<open>typeof v === 'string'\<close>\<close>

fun is_string :: "jsval \<Rightarrow> bool" where
  "is_string (JStr s) = True"
| "is_string v = False"

text \<open>
  White space as \<open>String.prototype.trim\<close> and the regular expression class \<open>\s\<close> both
  read it (the code units below 256 of WhiteSpace and LineTerminator): TAB, LF, VT, FF,
  CR, space and the no-break space.
\<close>

definition is_space :: "char \<Rightarrow> bool" where
  "is_space c \<longleftrightarrow>
     c \<in> set [CHR 0x09, CHR 0x0A, CHR 0x0B, CHR 0x0C, CHR 0x0D, CHR '' '', CHR 0xA0]"

definition trim :: "string \<Rightarrow> string" where
  "trim s = rev (dropWhile is_space (rev (dropWhile is_space s)))"

text \<open>\<open>s.includes(sub)\<close>: \<open>sub\<close> occurs in \<open>s\<close> as a contiguous run.\<close>

fun str_includes :: "string \<Rightarrow> string \<Rightarrow> bool" where
  "str_includes [] sub = (sub = [])"
| "str_includes (c # cs) sub = (prefix sub (c # cs) \<or> str_includes cs sub)"

text \<open>The letters \<open>A\<close> to \<open>Z\<close>.\<close>

definition uppercase :: "char \<Rightarrow> bool" where
  "uppercase c \<longleftrightarrow> c \<in> set ''ABCDEFGHIJKLMNOPQRSTUVWXYZ''"

text \<open>A number inside a template literal: its decimal digits.\<close>

fun show_nat :: "nat \<Rightarrow> string" where
  "show_nat n =
     (if n < 10 then [''0123456789'' ! n]
      else show_nat (n div 10) @ [''0123456789'' ! (n mod 10)])"

declare show_nat.simps [simp del]

section \<open>The extraction loop\<close>

text \<open>
  The hosted model is outside the program. One call of \<open>replicate.run\<close> either rejects
  with an error (its message is kept) or resolves to the list of output chunks that
  \<open>output.join("")\<close> concatenates. The sequence of the model's answers is a function
  from the attempt number to the answer of that call. \<open>JSON.parse\<close> is the platform's:
  it is a parameter \<open>parse\<close>, where \<open>Inl m\<close> is a SyntaxError with message \<open>m\<close>.
\<close>

datatype reply = Rejected string | Output "string list"

type_synonym json_parser = "string \<Rightarrow> string + jsval"

text \<open>How a call of the loop ends: \<open>return v\<close> or \<open>throw new Error(m)\<close>.\<close>

datatype completion = Return jsval | Throw string

text \<open>What a run did: the number of model calls and the waits (ms) it slept.\<close>

record trace =
  calls :: nat
  waits :: "nat list"

definition arrangements :: "jsval list" where
  "arrangements = [JStr ''remote'', JStr ''hybrid'', JStr ''on-site'']"

definition experiences :: "jsval list" where
  "experiences =
     [JStr ''Entry (0-2 Years)'', JStr ''Mid (3-5 Years)'',
      JStr ''Senior (6-8 Years)'', JStr ''Lead (8+ Years)'']"

text \<open>
  The loop is the same in every copy of the function:
  \<open>for (let attempt = 1; attempt <= maxRetries; attempt++) { try { ... } catch ... ;
  await new Promise(resolve => setTimeout(resolve, 1000 * attempt)); }\<close>.
  \<open>pass attempt\<close> is one pass through the \<open>try\<close> statement, which calls the model
  once: \<open>Some c\<close> when the pass leaves the function with \<open>c\<close>, \<open>None\<close> when control
  reaches the wait. When the loop runs out the function ends without a \<open>return\<close>: its
  result is \<open>undefined\<close>. \<open>maxRetries\<close> is a natural number; the handler passes the
  default 3.
\<close>

function for_attempts ::
  "(nat \<Rightarrow> completion option) \<Rightarrow> nat \<Rightarrow> nat \<Rightarrow> trace \<Rightarrow> completion \<times> trace" where
  "for_attempts pass maxRetries attempt tr =
     (if attempt \<le> maxRetries then
        (case pass attempt of
           Some c \<Rightarrow> (c, tr\<lparr>calls := calls tr + 1\<rparr>)
         | None \<Rightarrow>
             for_attempts pass maxRetries (attempt + 1)
               (tr\<lparr>calls := calls tr + 1, waits := waits tr @ [1000 * attempt]\<rparr>))
      else (Return JUndefined, tr))"
  by pat_completeness auto
termination
  by (relation "measure (\<lambda>(pass, maxRetries, attempt, tr). maxRetries + 1 - attempt)") auto

declare for_attempts.simps [simp del]

subsection \<open>netlify/functions/extract-job-details.js: the exhausted loop throws\<close>

text \<open>The condition of the \<open>if\<close> that guards \<open>return jsonResult\<close>, for a value that is
  not \<open>null\<close>.\<close>

definition schema_ok :: "jsval \<Rightarrow> bool" where
  "schema_ok jsonResult \<longleftrightarrow>
     truthy (field jsonResult ''job_title'') \<and>
     (field jsonResult ''city'' = JNull \<or> is_string (field jsonResult ''city'')) \<and>
     (field jsonResult ''work_arrangement'' = JNull \<or>
        field jsonResult ''work_arrangement'' \<in> set arrangements) \<and>
     (field jsonResult ''experience'' = JNull \<or>
        field jsonResult ''experience'' \<in> set experiences)"

definition exhausted_message :: "nat \<Rightarrow> string \<Rightarrow> string" where
  "exhausted_message maxRetries responseText =
     ''Failed to extract valid JSON after '' @ show_nat maxRetries @
     '' attempts. Last response: '' @ responseText"

text \<open>
  One pass through the body of the \<open>for\<close> loop up to the wait: \<open>Some c\<close> when the pass
  leaves the function, \<open>None\<close> when control reaches the wait. A rejected call goes
  to the outer \<open>catch\<close> with its error. A SyntaxError of \<open>JSON.parse\<close> and
  the TypeError of reading \<open>job_title\<close> from \<open>null\<close> go to the inner \<open>catch\<close>, whose
  \<open>throw\<close> on the last attempt is caught and thrown again by the outer one.
\<close>

definition attempt_once :: "json_parser \<Rightarrow> reply \<Rightarrow> nat \<Rightarrow> nat \<Rightarrow> completion option" where
  "attempt_once parse r attempt maxRetries =
     (case r of
        Rejected msg \<Rightarrow> (if attempt = maxRetries then Some (Throw msg) else None)
      | Output out \<Rightarrow>
          (let responseText = trim (concat out) in
           case parse responseText of
             Inl e \<Rightarrow>
               (if attempt = maxRetries
                then Some (Throw (exhausted_message maxRetries responseText)) else None)
           | Inr jsonResult \<Rightarrow>
               if nullish jsonResult then
                 (if attempt = maxRetries
                  then Some (Throw (exhausted_message maxRetries responseText)) else None)
               else if schema_ok jsonResult then Some (Return jsonResult)
               else None))"

text \<open>
  \<open>extractJobDetailsWithRetry(jobTitle, jobDescription, maxRetries = 3)\<close>. The title and
  the description only enter the prompt, which the sequence of answers stands for.
\<close>

definition extractJobDetailsWithRetry ::
  "json_parser \<Rightarrow> (nat \<Rightarrow> reply) \<Rightarrow> jsval \<Rightarrow> jsval \<Rightarrow> nat \<Rightarrow> completion \<times> trace" where
  "extractJobDetailsWithRetry parse run jobTitle jobDescription maxRetries =
     for_attempts (\<lambda>attempt. attempt_once parse (run attempt) attempt maxRetries)
       maxRetries 1 \<lparr>calls = 0, waits = []\<rparr>"

subsection \<open>The copy that strips fences and falls back to a record (it calls gpt-4o-mini)\<close>

text \<open>
  \<open>s.replace(/^```json\s*/, '')\<close> and \<open>s.replace(/^```\s*/, '')\<close>: the opening fence
  at the start of the text and the white space after it are removed. \<open>\s*\<close> is greedy
  and nothing follows it in the pattern, so it takes the whole run of white space.
\<close>

definition strip_open :: "string \<Rightarrow> string \<Rightarrow> string" where
  "strip_open fence s =
     (if prefix fence s then dropWhile is_space (drop (length fence) s) else s)"

text \<open>
  \<open>s.replace(/\s*```$/, '')\<close>: the search tries every start position from the left
  and replaces the first match. At a position the pattern matches when the rest of the
  text is white space, three backquotes and the end of the text (there is no \<open>m\<close> flag:
  \<open>$\<close> is the end of the text); a backquote is not white space, so \<open>\s*\<close> takes the
  whole run. The match reaches the end of the text, so what is left is the text before
  the match. At the end of the text the pattern does not match.
\<close>

fun strip_close :: "string \<Rightarrow> string" where
  "strip_close [] = []"
| "strip_close (c # cs) =
     (if dropWhile is_space (c # cs) = ''```'' then [] else c # strip_close cs)"

text \<open>The text handed to \<open>JSON.parse\<close>: lines 63 to 73 of the file.\<close>

definition clean_response :: "string list \<Rightarrow> string" where
  "clean_response out =
     (let responseText = trim (concat out);
          responseText =
            (if prefix ''```json'' responseText
             then strip_close (strip_open ''```json'' responseText)
             else if prefix ''```'' responseText
             then strip_close (strip_open ''```'' responseText)
             else responseText)
      in trim responseText)"

definition schema_ok_company :: "jsval \<Rightarrow> bool" where
  "schema_ok_company jsonResult \<longleftrightarrow>
     truthy (field jsonResult ''job_title'') \<and>
     (field jsonResult ''city'' = JNull \<or> is_string (field jsonResult ''city'')) \<and>
     (field jsonResult ''work_arrangement'' = JNull \<or>
        field jsonResult ''work_arrangement'' \<in> set arrangements) \<and>
     (field jsonResult ''company'' = JNull \<or> is_string (field jsonResult ''company'')) \<and>
     (field jsonResult ''experience'' = JNull \<or>
        field jsonResult ''experience'' \<in> set experiences)"

text \<open>The record returned in place of an error on the last attempt.\<close>

definition fallback_record :: "jsval \<Rightarrow> string \<Rightarrow> jsval" where
  "fallback_record jobTitle err =
     JObj [(''job_title'', jobTitle), (''city'', JNull), (''work_arrangement'', JNull),
           (''company'', JNull), (''experience'', JNull), (''error'', JStr err)]"

definition attempt_once_fallback ::
  "json_parser \<Rightarrow> reply \<Rightarrow> jsval \<Rightarrow> nat \<Rightarrow> nat \<Rightarrow> completion option" where
  "attempt_once_fallback parse r jobTitle attempt maxRetries =
     (case r of
        Rejected msg \<Rightarrow>
          (if attempt = maxRetries
           then Some (Return (fallback_record jobTitle (''AI processing failed: '' @ msg)))
           else None)
      | Output out \<Rightarrow>
          (let responseText = clean_response out in
           case parse responseText of
             Inl e \<Rightarrow>
               (if attempt = maxRetries
                then Some (Return (fallback_record jobTitle ''Failed to parse AI response as JSON''))
                else None)
           | Inr jsonResult \<Rightarrow>
               if nullish jsonResult then
                 (if attempt = maxRetries
                  then Some (Return (fallback_record jobTitle ''Failed to parse AI response as JSON''))
                  else None)
               else if schema_ok_company jsonResult then Some (Return jsonResult)
               else None))"

definition extractJobDetailsWithRetry_fallback ::
  "json_parser \<Rightarrow> (nat \<Rightarrow> reply) \<Rightarrow> jsval \<Rightarrow> jsval \<Rightarrow> nat \<Rightarrow> completion \<times> trace" where
  "extractJobDetailsWithRetry_fallback parse run jobTitle jobDescription maxRetries =
     for_attempts
       (\<lambda>attempt. attempt_once_fallback parse (run attempt) jobTitle attempt maxRetries)
       maxRetries 1 \<lparr>calls = 0, waits = []\<rparr>"

section \<open>The handler of netlify/functions/extract-job-details.js\<close>

subsection \<open>Requests and responses\<close>

text \<open>
  \<open>event.body\<close> is a string on this platform; the handler also provides for an object,
  and \<open>null\<close> and \<open>undefined\<close> are what a request without a body gives.
  \<open>event.queryStringParameters\<close> is an object of strings or \<open>null\<close>.
\<close>

datatype ev_body = BString string | BObject "(string \<times> jsval) list" | BNull | BUndefined

record event =
  httpMethod :: string
  headers :: "string \<rightharpoonup> string"
  body :: ev_body
  queryStringParameters :: "(string \<times> string) list option"

text \<open>A response body is a literal text or \<open>JSON.stringify(v)\<close>, kept as the value
  \<open>v\<close> it serializes.\<close>

datatype body_text = Text string | Stringify jsval

record response =
  statusCode :: nat
  resp_headers :: "(string \<times> string) list"
  resp_body :: body_text

definition cors_headers :: "(string \<times> string) list" where
  "cors_headers =
     [(''Access-Control-Allow-Origin'', ''*''),
      (''Access-Control-Allow-Headers'', ''Content-Type''),
      (''Access-Control-Allow-Methods'', ''POST, OPTIONS''),
      (''Content-Type'', ''application/json'')]"

text \<open>\<open>typeof event.body\<close>\<close>

fun typeof_body :: "ev_body \<Rightarrow> string" where
  "typeof_body (BString s) = ''string''"
| "typeof_body (BObject kvs) = ''object''"
| "typeof_body BNull = ''object''"
| "typeof_body BUndefined = ''undefined''"

text \<open>The text \<open>JSON.parse(event.body)\<close> parses: its argument converted to a string.\<close>

fun parse_argument :: "ev_body \<Rightarrow> string" where
  "parse_argument (BString s) = s"
| "parse_argument (BObject kvs) = ''[object Object]''"
| "parse_argument BNull = ''null''"
| "parse_argument BUndefined = ''undefined''"

subsection \<open>The hand-written multipart reader\<close>

text \<open>
  \<open>s.split(sep)\<close> for a separator that is not empty (the two separators of the handler
  are \<open>'boundary='\<close> and \<open>'--' + boundary\<close>): the pieces between the occurrences of
  \<open>sep\<close>, found from the left without overlap. \<open>cur\<close> is the piece being read.
\<close>

function splitter :: "string \<Rightarrow> string \<Rightarrow> string \<Rightarrow> string list" where
  "splitter sep cur [] = [cur]"
| "splitter sep cur (c # cs) =
     (if sep \<noteq> [] \<and> prefix sep (c # cs)
      then cur # splitter sep [] (drop (length sep) (c # cs))
      else splitter sep (cur @ [c]) cs)"
  by pat_completeness auto
termination
  by (relation "measure (\<lambda>(sep, cur, s). length s)") (auto simp: neq_Nil_conv)

definition split_str :: "string \<Rightarrow> string \<Rightarrow> string list" where
  "split_str s sep = splitter sep [] s"

text \<open>\<open>\r?\n\<close> at the start of a text: the text after it.\<close>

definition line_break :: "string \<Rightarrow> string option" where
  "line_break s =
     (if prefix [CHR 0x0D, CHR 0x0A] s then Some (drop 2 s)
      else if prefix [CHR 0x0A] s then Some (drop 1 s)
      else None)"

text \<open>\<open>\r?\n\r?\n\<close>\<close>

definition blank_line :: "string \<Rightarrow> string option" where
  "blank_line s = (case line_break s of None \<Rightarrow> None | Some r \<Rightarrow> line_break r)"

text \<open>
  \<open>\s*\r?\n\r?\n\<close> at the start of a text: the text after the match. \<open>\s*\<close> is greedy:
  the longest run of white space is tried first and given back one character at a time
  until the two line breaks follow. What comes next in the pattern always matches, so
  the first success is the match.
\<close>

fun after_spaces :: "string \<Rightarrow> string option" where
  "after_spaces [] = blank_line []"
| "after_spaces (c # cs) =
     (if is_space c
      then (case after_spaces cs of Some r \<Rightarrow> Some r | None \<Rightarrow> blank_line (c # cs))
      else blank_line (c # cs))"

text \<open>
  \<open>(.*?)(?:\r?\n|$)\<close> with the flag \<open>s\<close>: the group is lazy, it grows one character at
  a time (any character, the dot matches line terminators too) and stops at the first
  position where a line break or the end of the text follows.
\<close>

fun capture_line :: "string \<Rightarrow> string" where
  "capture_line [] = []"
| "capture_line (c # cs) = (if line_break (c # cs) \<noteq> None then [] else c # capture_line cs)"

text \<open>
  \<open>part.match(/name="job_title"\s*\r?\n\r?\n(.*?)(?:\r?\n|$)/s)\<close>: \<open>match_at\<close> is the
  pattern at one start position, \<open>regex_capture\<close> the search from the left; the result
  is group 1 of the first match. \<open>name\<close> is the literal text the pattern starts with.
\<close>

definition match_at :: "string \<Rightarrow> string \<Rightarrow> string option" where
  "match_at name s =
     (if prefix name s then map_option capture_line (after_spaces (drop (length name) s))
      else None)"

fun regex_capture :: "string \<Rightarrow> string \<Rightarrow> string option" where
  "regex_capture name [] = match_at name []"
| "regex_capture name (c # cs) =
     (case match_at name (c # cs) of Some m \<Rightarrow> Some m | None \<Rightarrow> regex_capture name cs)"

text \<open>The body of the loop over the parts, for one of the two fields: the variable
  keeps its value unless the part names the field and the pattern matches.\<close>

definition read_part :: "string \<Rightarrow> string \<Rightarrow> jsval \<Rightarrow> jsval" where
  "read_part name part cur =
     (if str_includes part name
      then (case regex_capture name part of Some m \<Rightarrow> JStr (trim m) | None \<Rightarrow> cur)
      else cur)"

fun read_parts :: "string list \<Rightarrow> jsval \<times> jsval \<Rightarrow> jsval \<times> jsval" where
  "read_parts [] (job_title, job_description) = (job_title, job_description)"
| "read_parts (part # parts) (job_title, job_description) =
     read_parts parts
       (read_part ''name=\"job_title\"'' part job_title,
        read_part ''name=\"job_description\"'' part job_description)"

text \<open>\<open>contentType.split('boundary=')[1]\<close>, \<open>None\<close> for \<open>undefined\<close>.\<close>

definition boundary_of :: "string \<Rightarrow> string option" where
  "boundary_of contentType =
     (case split_str contentType ''boundary='' of a # b # rest \<Rightarrow> Some b | _ \<Rightarrow> None)"

definition read_multipart :: "string \<Rightarrow> ev_body \<Rightarrow> jsval \<times> jsval" where
  "read_multipart contentType b =
     (case b of
        BObject kvs \<Rightarrow> (field (JObj kvs) ''job_title'', field (JObj kvs) ''job_description'')
      | BString s \<Rightarrow>
          (case boundary_of contentType of
             None \<Rightarrow> (JUndefined, JUndefined)
           | Some boundary \<Rightarrow>
               if boundary = [] then (JUndefined, JUndefined)
               else read_parts (split_str s (''--'' @ boundary)) (JUndefined, JUndefined))
      | _ \<Rightarrow> (JUndefined, JUndefined))"

subsection \<open>Reading the two fields\<close>

text \<open>\<open>event.headers['content-type'] || event.headers['Content-Type'] || ''\<close>\<close>

definition content_type_of :: "event \<Rightarrow> string" where
  "content_type_of ev =
     (case headers ev ''content-type'' of
        Some v \<Rightarrow>
          if v \<noteq> [] then v
          else (case headers ev ''Content-Type'' of Some w \<Rightarrow> w | None \<Rightarrow> [])
      | None \<Rightarrow> (case headers ev ''Content-Type'' of Some w \<Rightarrow> w | None \<Rightarrow> []))"

text \<open>The message of the TypeError that reading \<open>job_title\<close> from \<open>null\<close> throws (the
  wording is the engine's).\<close>

definition null_read_message :: string where
  "null_read_message =
     ''Cannot read properties of null (reading '' @ [CHR 0x27] @ ''job_title'' @ [CHR 0x27] @ '')''"

text \<open>
  \<open>const body = JSON.parse(event.body); job_title = body.job_title;
  job_description = body.job_description\<close>: \<open>Inl m\<close> when one of the three throws.
\<close>

definition read_json :: "json_parser \<Rightarrow> ev_body \<Rightarrow> string + jsval \<times> jsval" where
  "read_json parse b =
     (case parse (parse_argument b) of
        Inl m \<Rightarrow> Inl m
      | Inr v \<Rightarrow>
          if nullish v then Inl null_read_message
          else Inr (field v ''job_title'', field v ''job_description''))"

text \<open>\<open>params.get(name)\<close> is a string or \<open>null\<close>.\<close>

definition param :: "string option \<Rightarrow> jsval" where
  "param r = (case r of Some s \<Rightarrow> JStr s | None \<Rightarrow> JNull)"

text \<open>
  What the part of the handler that reads the body ends in: the two variables, a
  response returned at once, or an error thrown to the \<open>catch\<close> of the handler.
  \<open>new URLSearchParams(event.body).get(name)\<close> is the platform's: the parameter
  \<open>url_get\<close>.
\<close>

datatype parsed = Fields jsval jsval | Respond response | Raise string

type_synonym url_reader = "ev_body \<Rightarrow> string \<Rightarrow> string option"

definition invalid_format :: response where
  "invalid_format =
     \<lparr>statusCode = 400, resp_headers = cors_headers,
      resp_body = Stringify (JObj [(''error'',
        JStr ''Invalid request format. Use JSON or URL-encoded form data.'')])\<rparr>"

definition read_request :: "json_parser \<Rightarrow> url_reader \<Rightarrow> event \<Rightarrow> parsed" where
  "read_request parse url_get ev =
     (let contentType = content_type_of ev in
      if str_includes contentType ''application/json'' then
        (case read_json parse (body ev) of
           Inl m \<Rightarrow> Raise m
         | Inr (job_title, job_description) \<Rightarrow> Fields job_title job_description)
      else if str_includes contentType ''application/x-www-form-urlencoded'' then
        Fields (param (url_get (body ev) ''job_title''))
               (param (url_get (body ev) ''job_description''))
      else if str_includes contentType ''multipart/form-data'' then
        (case read_multipart contentType (body ev) of
           (job_title, job_description) \<Rightarrow> Fields job_title job_description)
      else
        (case read_json parse (body ev) of
           Inl m \<Rightarrow> Respond invalid_format
         | Inr (job_title, job_description) \<Rightarrow> Fields job_title job_description))"

text \<open>The fallback to the query string: lines 197 to 201.\<close>

definition query_fallback :: "event \<Rightarrow> jsval \<times> jsval \<Rightarrow> jsval \<times> jsval" where
  "query_fallback ev jj =
     (case jj of (job_title, job_description) \<Rightarrow>
        (case queryStringParameters ev of
           Some q \<Rightarrow>
             if \<not> truthy job_title \<or> \<not> truthy job_description then
               (js_or job_title (field (JObj (map (\<lambda>(k, v). (k, JStr v)) q)) ''job_title''),
                js_or job_description
                  (field (JObj (map (\<lambda>(k, v). (k, JStr v)) q)) ''job_description''))
             else (job_title, job_description)
         | None \<Rightarrow> (job_title, job_description)))"

subsection \<open>The responses\<close>

text \<open>The \<open>debug\<close> object of the response to a request without its fields.\<close>

definition debug_info :: "event \<Rightarrow> jsval" where
  "debug_info ev =
     JObj
       [(''contentType'',
           (case headers ev ''content-type'' of Some v \<Rightarrow> JStr v | None \<Rightarrow> JUndefined)),
        (''bodyType'', JStr (typeof_body (body ev))),
        (''bodyPreview'',
           (case body ev of BString s \<Rightarrow> JStr (take 200 s) | _ \<Rightarrow> JStr ''Not a string'')),
        (''queryParams'',
           (case queryStringParameters ev of
              Some q \<Rightarrow> JObj (map (\<lambda>(k, v). (k, JStr v)) q)
            | None \<Rightarrow> JNull))]"

definition missing_fields :: "event \<Rightarrow> jsval \<Rightarrow> jsval \<Rightarrow> response" where
  "missing_fields ev job_title job_description =
     \<lparr>statusCode = 400, resp_headers = cors_headers,
      resp_body = Stringify (JObj
        [(''error'', JStr ''Missing required fields: job_title and job_description''),
         (''received'', JObj
            [(''job_title'', js_or job_title JNull),
             (''job_description'', js_or job_description JNull)]),
         (''debug'', debug_info ev)])\<rparr>"

definition server_error :: "string \<Rightarrow> response" where
  "server_error m =
     \<lparr>statusCode = 500, resp_headers = cors_headers,
      resp_body = Stringify (JObj
        [(''error'', JStr ''Failed to extract job details''), (''details'', JStr m)])\<rparr>"

definition preflight :: response where
  "preflight = \<lparr>statusCode = 200, resp_headers = cors_headers, resp_body = Text []\<rparr>"

definition method_not_allowed :: response where
  "method_not_allowed =
     \<lparr>statusCode = 405, resp_headers = cors_headers,
      resp_body = Stringify (JObj [(''error'', JStr ''Method not allowed'')])\<rparr>"

definition success :: "jsval \<Rightarrow> response" where
  "success result =
     \<lparr>statusCode = 200, resp_headers = cors_headers, resp_body = Stringify result\<rparr>"

subsection \<open>The handler\<close>

text \<open>
  The handler gives its response and, when it called \<open>extractJobDetailsWithRetry\<close>,
  the two arguments of the call with what the loop did; \<open>None\<close> when the loop was not
  called.
\<close>

type_synonym handled = "response \<times> (jsval \<times> jsval \<times> trace) option"

definition handler :: "json_parser \<Rightarrow> url_reader \<Rightarrow> (nat \<Rightarrow> reply) \<Rightarrow> event \<Rightarrow> handled" where
  "handler parse url_get run ev =
     (if httpMethod ev = ''OPTIONS'' then (preflight, None)
      else if httpMethod ev \<noteq> ''POST'' then (method_not_allowed, None)
      else
        (case read_request parse url_get ev of
           Respond r \<Rightarrow> (r, None)
         | Raise m \<Rightarrow> (server_error m, None)
         | Fields t d \<Rightarrow>
             (case query_fallback ev (t, d) of (job_title, job_description) \<Rightarrow>
                if \<not> truthy job_title \<or> \<not> truthy job_description
                then (missing_fields ev job_title job_description, None)
                else
                  (case extractJobDetailsWithRetry parse run job_title job_description 3 of
                     (Return result, tr) \<Rightarrow>
                       (success result, Some (job_title, job_description, tr))
                   | (Throw m, tr) \<Rightarrow>
                       (server_error m, Some (job_title, job_description, tr))))))"

subsection \<open>Multipart bodies as clients send them\<close>





section \<open>Sample inputs\<close>

text \<open>
  The texts and values of the examples. \<open>sample_parse\<close> is \<open>JSON.parse\<close> on the texts
  that the examples hand to it: each of the listed texts is JSON and parses to the
  value beside it; the other texts of the examples (\<open>not json\<close>, and an answer inside a
  Markdown fence) are not JSON, and \<open>JSON.parse\<close> throws a SyntaxError on them.
\<close>

definition sample_answer :: string where
  "sample_answer =
     ''{\"job_title\":\"Data Engineer\",\"city\":\"Richmond, VA\",'' @
     ''\"work_arrangement\":\"remote\",\"experience\":\"Senior (6-8 Years)\"}''"

definition sample_object :: jsval where
  "sample_object =
     JObj [(''job_title'', JStr ''Data Engineer''), (''city'', JStr ''Richmond, VA''),
           (''work_arrangement'', JStr ''remote''),
           (''experience'', JStr ''Senior (6-8 Years)'')]"

definition sample_answer_company :: string where
  "sample_answer_company =
     ''{\"job_title\":\"Data Engineer\",\"city\":null,\"work_arrangement\":\"hybrid\",'' @
     ''\"company\":\"Acme\",\"experience\":null}''"

definition sample_object_company :: jsval where
  "sample_object_company =
     JObj [(''job_title'', JStr ''Data Engineer''), (''city'', JNull),
           (''work_arrangement'', JStr ''hybrid''), (''company'', JStr ''Acme''),
           (''experience'', JNull)]"

definition sample_capitalized :: string where
  "sample_capitalized =
     ''{\"job_title\":\"Data Engineer\",\"city\":null,\"work_arrangement\":\"Hybrid\",'' @
     ''\"company\":null,\"experience\":null}''"

definition sample_object_capitalized :: jsval where
  "sample_object_capitalized =
     JObj [(''job_title'', JStr ''Data Engineer''), (''city'', JNull),
           (''work_arrangement'', JStr ''Hybrid''), (''company'', JNull),
           (''experience'', JNull)]"

definition sample_request :: string where
  "sample_request =
     ''{\"job_title\":\"Senior Data Engineer\",\"job_description\":\"5+ years of experience\"}''"

definition sample_request_object :: jsval where
  "sample_request_object =
     JObj [(''job_title'', JStr ''Senior Data Engineer''),
           (''job_description'', JStr ''5+ years of experience'')]"

definition sample_parse :: json_parser where
  "sample_parse s =
     (if s = sample_answer then Inr sample_object
      else if s = sample_answer_company then Inr sample_object_company
      else if s = sample_capitalized then Inr sample_object_capitalized
      else if s = sample_request then Inr sample_request_object
      else if s = ''null'' then Inr JNull
      else Inl ''Unexpected token'')"

definition sample_event :: event where
  "sample_event =
     \<lparr>httpMethod = ''POST'', headers = [''content-type'' \<mapsto> ''application/json''],
      body = BString sample_request, queryStringParameters = None\<rparr>"

definition sample_null_event :: event where
  "sample_null_event =
     \<lparr>httpMethod = ''POST'', headers = Map.empty, body = BString ''null'',
      queryStringParameters = None\<rparr>"

definition sample_object_event :: event where
  "sample_object_event =
     \<lparr>httpMethod = ''POST'',
      headers = [''content-type'' \<mapsto> ''multipart/form-data; boundary=x''],
      body = BObject [(''job_title'', JStr ''Senior Data Engineer'')],
      queryStringParameters = Some []\<rparr>"





section \<open>Properties of the loop\<close>

lemma for_attempts_calls:
  "calls (snd (for_attempts pass n a tr)) \<le> calls tr + (n + 1 - a)"
proof (induction pass n a tr rule: for_attempts.induct)
  case (1 pass maxRetries attempt tr)
  show ?case
  proof (cases "attempt \<le> maxRetries")
    case False
    then show ?thesis by (simp add: for_attempts.simps)
  next
    case le: True
    show ?thesis
    proof (cases "pass attempt")
      case (Some c)
      with le show ?thesis by (simp add: for_attempts.simps)
    next
      case None
      with le 1 have "calls (snd (for_attempts pass maxRetries (attempt + 1)
                 (tr\<lparr>calls := calls tr + 1, waits := waits tr @ [1000 * attempt]\<rparr>)))
            \<le> calls tr + 1 + (maxRetries + 1 - (attempt + 1))"
        by simp
      with le None show ?thesis by (subst for_attempts.simps) simp
    qed
  qed
qed

text \<open>The loop leaves at the first pass that does not reach the wait.\<close>

lemma for_attempts_leaves:
  assumes "a \<le> k" and "k \<le> n" and "pass k = Some c"
    and "\<And>i. a \<le> i \<Longrightarrow> i < k \<Longrightarrow> pass i = None"
  shows "for_attempts pass n a tr =
           (c, \<lparr>calls = calls tr + (k + 1 - a),
                waits = waits tr @ map (\<lambda>i. 1000 * i) [a..<k]\<rparr>)"
  using assms
proof (induction "k - a" arbitrary: a tr)
  case 0
  then have "a = k" by simp
  with 0 show ?case by (subst for_attempts.simps) simp
next
  case (Suc m)
  then have lt: "a < k" and none: "pass a = None" by auto
  have "for_attempts pass n (a + 1)
          (tr\<lparr>calls := calls tr + 1, waits := waits tr @ [1000 * a]\<rparr>) =
        (c, \<lparr>calls = calls (tr\<lparr>calls := calls tr + 1, waits := waits tr @ [1000 * a]\<rparr>) + (k + 1 - (a + 1)),
             waits = waits (tr\<lparr>calls := calls tr + 1, waits := waits tr @ [1000 * a]\<rparr>)
                      @ map (\<lambda>i. 1000 * i) [a + 1..<k]\<rparr>)"
    using Suc lt by (intro Suc(1)) auto
  with lt none Suc(4) show ?case
    by (subst for_attempts.simps) (simp add: upt_conv_Cons)
qed

text \<open>A loop whose every pass reaches the wait ends in \<open>undefined\<close>, after the wait that
  follows the last pass.\<close>

lemma for_attempts_runs_out:
  assumes "\<And>i. a \<le> i \<Longrightarrow> i \<le> n \<Longrightarrow> pass i = None"
  shows "for_attempts pass n a tr =
           (Return JUndefined,
            \<lparr>calls = calls tr + (n + 1 - a),
             waits = waits tr @ map (\<lambda>i. 1000 * i) [a..<n + 1]\<rparr>)"
  using assms
proof (induction "n + 1 - a" arbitrary: a tr)
  case 0
  then have "\<not> a \<le> n" by simp
  then show ?case by (subst for_attempts.simps) simp
next
  case (Suc m)
  then have le: "a \<le> n" and none: "pass a = None" by auto
  have "for_attempts pass n (a + 1)
          (tr\<lparr>calls := calls tr + 1, waits := waits tr @ [1000 * a]\<rparr>) =
        (Return JUndefined,
         \<lparr>calls = calls (tr\<lparr>calls := calls tr + 1, waits := waits tr @ [1000 * a]\<rparr>) + (n + 1 - (a + 1)),
          waits = waits (tr\<lparr>calls := calls tr + 1, waits := waits tr @ [1000 * a]\<rparr>)
                   @ map (\<lambda>i. 1000 * i) [a + 1..<n + 1]\<rparr>)"
    using Suc le by (intro Suc(1)) auto
  with le none show ?case
    by (subst for_attempts.simps) (simp add: upt_conv_Cons)
qed

text \<open>What the loop ends in is \<open>undefined\<close> or what one of its passes ended in.\<close>

lemma for_attempts_result:
  assumes "for_attempts pass n a tr = (c, tr')"
  shows "c = Return JUndefined \<or> (\<exists>k. a \<le> k \<and> k \<le> n \<and> pass k = Some c)"
  using assms
proof (induction pass n a tr rule: for_attempts.induct)
  case (1 pass maxRetries attempt tr)
  show ?case
  proof (cases "attempt \<le> maxRetries")
    case False
    with 1(2) show ?thesis by (simp add: for_attempts.simps)
  next
    case le: True
    show ?thesis
    proof (cases "pass attempt")
      case (Some c')
      with le 1(2) have "c' = c" by (simp add: for_attempts.simps)
      with Some le show ?thesis by auto
    next
      case None
      with le 1(2) have "for_attempts pass maxRetries (attempt + 1)
          (tr\<lparr>calls := calls tr + 1, waits := waits tr @ [1000 * attempt]\<rparr>) = (c, tr')"
        by (simp add: for_attempts.simps)
      with 1(1) le None have "c = Return JUndefined \<or>
          (\<exists>k. attempt + 1 \<le> k \<and> k \<le> maxRetries \<and> pass k = Some c)"
        by simp
      then show ?thesis by (auto intro: Suc_leD)
    qed
  qed
qed

text \<open>With \<open>maxRetries = 0\<close> the body of the loop is never entered.\<close>

lemma for_attempts_none:
  "for_attempts pass 0 1 tr = (Return JUndefined, tr)"
  by (simp add: for_attempts.simps)

lemma exhausted_message_three:
  "exhausted_message 3 ''not json'' =
     ''Failed to extract valid JSON after 3 attempts. Last response: not json''"
  by (simp add: exhausted_message_def show_nat.simps)

text \<open>The passes of the two variants, case by case.\<close>

lemma attempt_once_unparseable:
  "isl (parse (trim (concat out))) \<Longrightarrow>
   attempt_once parse (Output out) attempt maxRetries =
     (if attempt = maxRetries
      then Some (Throw (exhausted_message maxRetries (trim (concat out)))) else None)"
  by (auto simp: attempt_once_def Let_def split: sum.splits)

lemma attempt_once_fallback_unparseable:
  "isl (parse (clean_response out)) \<Longrightarrow>
   attempt_once_fallback parse (Output out) jobTitle attempt maxRetries =
     (if attempt = maxRetries
      then Some (Return (fallback_record jobTitle ''Failed to parse AI response as JSON''))
      else None)"
  by (auto simp: attempt_once_fallback_def Let_def split: sum.splits)

lemma schema_ok_not_nullish: "schema_ok v \<Longrightarrow> \<not> nullish v"
  by (cases v) (simp_all add: schema_ok_def)

lemma schema_ok_company_not_nullish: "schema_ok_company v \<Longrightarrow> \<not> nullish v"
  by (cases v) (simp_all add: schema_ok_company_def)

lemma attempt_once_valid:
  "parse (trim (concat out)) = Inr v \<Longrightarrow> schema_ok v \<Longrightarrow>
   attempt_once parse (Output out) attempt maxRetries = Some (Return v)"
  by (simp add: attempt_once_def Let_def schema_ok_not_nullish)

lemma attempt_once_invalid:
  "parse (trim (concat out)) = Inr v \<Longrightarrow> \<not> nullish v \<Longrightarrow> \<not> schema_ok v \<Longrightarrow>
   attempt_once parse (Output out) attempt maxRetries = None"
  by (simp add: attempt_once_def Let_def)

lemma attempt_once_fallback_invalid:
  "parse (clean_response out) = Inr v \<Longrightarrow> \<not> nullish v \<Longrightarrow> \<not> schema_ok_company v \<Longrightarrow>
   attempt_once_fallback parse (Output out) jobTitle attempt maxRetries = None"
  by (simp add: attempt_once_fallback_def Let_def)

lemma attempt_once_returns:
  "attempt_once parse r attempt maxRetries = Some (Return v) \<Longrightarrow> schema_ok v"
  by (auto simp: attempt_once_def Let_def split: reply.splits sum.splits if_splits)

lemma attempt_once_fallback_returns:
  "attempt_once_fallback parse r jobTitle attempt maxRetries = Some (Return v) \<Longrightarrow>
   schema_ok_company v \<or> (\<exists>err. v = fallback_record jobTitle err)"
  by (auto simp: attempt_once_fallback_def Let_def split: reply.splits sum.splits if_splits)

lemmas sample_texts =
  sample_parse_def sample_answer_def sample_answer_company_def sample_capitalized_def
  sample_request_def

text \<open>
  What the loop returns, \<open>undefined\<close> apart, passed the validation of one of its
  attempts or is the fallback record: its \<open>work_arrangement\<close> and \<open>experience\<close> are
  \<open>null\<close> or one of the literals.
\<close>

lemma returned_fields_enumerated:
  assumes "extractJobDetailsWithRetry parse run t d n = (Return v, tr) \<or>
           extractJobDetailsWithRetry_fallback parse run t d n = (Return v, tr)"
    and "v \<noteq> JUndefined"
  shows "field v ''work_arrangement'' \<in>
           {JNull, JStr ''remote'', JStr ''hybrid'', JStr ''on-site''}"
    and "field v ''experience'' \<in>
           {JNull, JStr ''Entry (0-2 Years)'', JStr ''Mid (3-5 Years)'',
            JStr ''Senior (6-8 Years)'', JStr ''Lead (8+ Years)''}"
proof -
  have ok: "schema_ok v \<or> schema_ok_company v \<or> (\<exists>err. v = fallback_record t err)"
    using assms(1)
  proof
    assume "extractJobDetailsWithRetry parse run t d n = (Return v, tr)"
    with assms(2) obtain k where "attempt_once parse (run k) k n = Some (Return v)"
      using for_attempts_result [of "\<lambda>a. attempt_once parse (run a) a n" n 1
          "\<lparr>calls = 0, waits = []\<rparr>" "Return v" tr]
      by (auto simp: extractJobDetailsWithRetry_def)
    then show ?thesis
      by (auto dest: attempt_once_returns)
  next
    assume "extractJobDetailsWithRetry_fallback parse run t d n = (Return v, tr)"
    with assms(2) obtain k where "attempt_once_fallback parse (run k) t k n = Some (Return v)"
      using for_attempts_result [of "\<lambda>a. attempt_once_fallback parse (run a) t a n" n 1
          "\<lparr>calls = 0, waits = []\<rparr>" "Return v" tr]
      by (auto simp: extractJobDetailsWithRetry_fallback_def)
    then show ?thesis
      by (auto dest: attempt_once_fallback_returns)
  qed
  from ok show "field v ''work_arrangement'' \<in>
      {JNull, JStr ''remote'', JStr ''hybrid'', JStr ''on-site''}"
    by (auto simp: schema_ok_def schema_ok_company_def arrangements_def fallback_record_def)
  from ok show "field v ''experience'' \<in>
      {JNull, JStr ''Entry (0-2 Years)'', JStr ''Mid (3-5 Years)'',
       JStr ''Senior (6-8 Years)'', JStr ''Lead (8+ Years)''}"
    by (auto simp: schema_ok_def schema_ok_company_def experiences_def fallback_record_def)
qed

text \<open>A \<open>work_arrangement\<close> with an uppercase letter fails both validations, and no
  pass returns the value that has it.\<close>

lemma uppercase_arrangement_refused:
  assumes "field w ''work_arrangement'' = JStr s" and "c \<in> set s" and "uppercase c"
  shows "\<not> schema_ok w" and "\<not> schema_ok_company w"
    and "attempt_once parse r attempt n \<noteq> Some (Return w)"
    and "attempt_once_fallback parse r t attempt n \<noteq> Some (Return w)"
proof -
  from assms have notin: "JStr s \<notin> set arrangements"
    by (auto simp: arrangements_def uppercase_def)
  with assms(1) show a: "\<not> schema_ok w"
    by (simp add: schema_ok_def)
  from notin assms(1) show b: "\<not> schema_ok_company w"
    by (simp add: schema_ok_company_def)
  from a show "attempt_once parse r attempt n \<noteq> Some (Return w)"
    by (auto dest: attempt_once_returns)
  from assms(1) have "w \<noteq> fallback_record t err" for err
    by (auto simp: fallback_record_def)
  with b show "attempt_once_fallback parse r t attempt n \<noteq> Some (Return w)"
    by (auto dest: attempt_once_fallback_returns)
qed

section \<open>Properties of the fence stripping\<close>

lemma backquote_not_space: "\<not> is_space (CHR 0x60)"
  by (simp add: is_space_def)

lemma line_feed_space: "is_space (CHR 0x0A)"
  by (simp add: is_space_def)

lemma dropWhile_unspaced: "s = [] \<or> \<not> is_space (hd s) \<Longrightarrow> dropWhile is_space s = s"
  by (cases s) auto

lemma dropWhile_starts_unspaced:
  "dropWhile is_space s = [] \<or> \<not> is_space (hd (dropWhile is_space s))"
  by (metis hd_dropWhile)

text \<open>Removing the white space at the end keeps a first character that is not white
  space.\<close>

lemma trim_end_keeps_start:
  assumes "a = [] \<or> \<not> is_space (hd a)"
  shows "rev (dropWhile is_space (rev a)) = [] \<or>
         \<not> is_space (hd (rev (dropWhile is_space (rev a))))"
proof -
  define b where "b = dropWhile is_space (rev a)"
  have "rev a = takeWhile is_space (rev a) @ b"
    by (simp add: b_def)
  then have a: "a = rev b @ rev (takeWhile is_space (rev a))"
    by (metis rev_append rev_rev_ident)
  show ?thesis
  proof (cases "b = []")
    case True
    then show ?thesis by (simp add: b_def)
  next
    case False
    then have "hd a = hd (rev b)"
      using a by (metis hd_append2 rev_is_Nil_conv)
    moreover from False a have "a \<noteq> []"
      by auto
    ultimately show ?thesis
      using assms by (simp add: b_def)
  qed
qed

lemma trim_starts_unspaced: "trim s = [] \<or> \<not> is_space (hd (trim s))"
  unfolding trim_def by (rule trim_end_keeps_start) (rule dropWhile_starts_unspaced)

lemma trim_ends_unspaced: "trim s = [] \<or> \<not> is_space (last (trim s))"
proof -
  define b where "b = dropWhile is_space (rev (dropWhile is_space s))"
  have "b = [] \<or> \<not> is_space (hd b)"
    unfolding b_def by (rule dropWhile_starts_unspaced)
  then have "rev b = [] \<or> \<not> is_space (last (rev b))"
    by (cases b) auto
  then show ?thesis
    by (simp add: trim_def b_def)
qed

lemma trim_fixed:
  assumes "s = [] \<or> \<not> is_space (hd s)" and "s = [] \<or> \<not> is_space (last s)"
  shows "trim s = s"
proof -
  have "dropWhile is_space s = s"
    using assms(1) by (rule dropWhile_unspaced)
  moreover have "dropWhile is_space (rev s) = rev s"
    using assms(2) by (intro dropWhile_unspaced) (auto simp: hd_rev)
  ultimately show ?thesis
    by (simp add: trim_def)
qed

lemma trim_idem: "trim (trim s) = trim s"
  by (rule trim_fixed) (rule trim_starts_unspaced, rule trim_ends_unspaced)

text \<open>The closing fence after white space is removed together with the white space
  before it.\<close>

lemma dropWhile_spaces_fence:
  assumes "\<forall>c \<in> set ws. is_space c"
  shows "dropWhile is_space (ws @ ''```'') = ''```''"
proof -
  have "dropWhile is_space (ws @ ''```'') = dropWhile is_space ''```''"
    using assms by (intro dropWhile_append2) auto
  then show ?thesis
    by (simp add: backquote_not_space)
qed

lemma strip_close_fence:
  assumes "x = [] \<or> \<not> is_space (last x)" and "\<forall>c \<in> set ws. is_space c"
  shows "strip_close (x @ ws @ ''```'') = x"
  using assms(1)
proof (induction x)
  case Nil
  have d: "dropWhile is_space (ws @ ''```'') = ''```''"
    using assms(2) by (rule dropWhile_spaces_fence)
  show ?case
  proof (cases ws)
    case Nil
    then show ?thesis by (simp add: backquote_not_space)
  next
    case (Cons c cs)
    with d show ?thesis by simp
  qed
next
  case (Cons c x)
  from Cons.prems have lastns: "\<not> is_space (last (c # x))"
    by simp
  have mem: "last (c # x) \<in> set (c # x)"
    by (rule last_in_set) simp
  have "dropWhile is_space ((c # x) @ ws @ ''```'') =
      dropWhile is_space (c # x) @ ws @ ''```''"
    using mem lastns by (rule dropWhile_append1)
  moreover have "dropWhile is_space (c # x) \<noteq> []"
    using lastns mem by (simp only: dropWhile_eq_Nil_conv) blast
  ultimately have "length (dropWhile is_space ((c # x) @ ws @ ''```'')) > 3"
    by (cases "dropWhile is_space (c # x)") simp_all
  then have ne: "dropWhile is_space (c # x @ ws @ ''```'') \<noteq> ''```''"
    by auto
  have "x = [] \<or> \<not> is_space (last x)"
    using lastns by (cases x) auto
  then have "strip_close (x @ ws @ ''```'') = x"
    by (rule Cons.IH)
  with ne show ?case
    by simp
qed

lemma trim_end_split:
  "\<exists>ws. (\<forall>c \<in> set ws. is_space c) \<and> x = rev (dropWhile is_space (rev x)) @ ws \<and>
     (rev (dropWhile is_space (rev x)) = [] \<or>
      \<not> is_space (last (rev (dropWhile is_space (rev x)))))"
proof -
  define k where "k = dropWhile is_space (rev x)"
  have "rev x = takeWhile is_space (rev x) @ k"
    by (simp add: k_def)
  then have "x = rev k @ rev (takeWhile is_space (rev x))"
    by (metis rev_append rev_rev_ident)
  moreover have "\<forall>c \<in> set (rev (takeWhile is_space (rev x))). is_space c"
    by (auto dest: set_takeWhileD)
  moreover have "rev k = [] \<or> \<not> is_space (last (rev k))"
  proof -
    have "k = [] \<or> \<not> is_space (hd k)"
      unfolding k_def by (rule dropWhile_starts_unspaced)
    then show ?thesis
      by (cases k) auto
  qed
  ultimately show ?thesis
    unfolding k_def by blast
qed

lemma strip_close_after_text:
  "strip_close (x @ [CHR 0x0A] @ ''```'') = rev (dropWhile is_space (rev x))"
proof -
  define y where "y = rev (dropWhile is_space (rev x))"
  obtain ws where ws: "\<forall>c \<in> set ws. is_space c"
    and x: "x = y @ ws"
    and l: "y = [] \<or> \<not> is_space (last y)"
    using trim_end_split [of x] unfolding y_def by blast
  have "strip_close (y @ (ws @ [CHR 0x0A]) @ ''```'') = y"
    using l ws by (intro strip_close_fence) (auto simp: line_feed_space)
  moreover have "x @ [CHR 0x0A] @ ''```'' = y @ (ws @ [CHR 0x0A]) @ ''```''"
    by (subst x) simp
  ultimately show ?thesis
    by (simp only: y_def)
qed

lemma strip_fenced:
  "strip_close (dropWhile is_space ([CHR 0x0A] @ j @ [CHR 0x0A] @ ''```'')) = trim j"
proof (cases "\<forall>c \<in> set j. is_space c")
  case True
  then have "\<forall>c \<in> set ([CHR 0x0A] @ j @ [CHR 0x0A]). is_space c"
    by (auto simp: line_feed_space)
  then have "dropWhile is_space (([CHR 0x0A] @ j @ [CHR 0x0A]) @ ''```'') = ''```''"
    by (rule dropWhile_spaces_fence)
  then have "strip_close (dropWhile is_space ([CHR 0x0A] @ j @ [CHR 0x0A] @ ''```'')) = []"
    by (simp add: backquote_not_space)
  moreover from True have e: "dropWhile is_space j = []"
    by (simp only: dropWhile_eq_Nil_conv)
  have "trim j = []"
    unfolding trim_def e by simp
  ultimately show ?thesis
    by simp
next
  case False
  then obtain c where "c \<in> set j" "\<not> is_space c"
    by blast
  then have "dropWhile is_space (j @ [CHR 0x0A] @ ''```'') =
      dropWhile is_space j @ [CHR 0x0A] @ ''```''"
    by (rule dropWhile_append1)
  then have "dropWhile is_space ([CHR 0x0A] @ j @ [CHR 0x0A] @ ''```'') =
      dropWhile is_space j @ [CHR 0x0A] @ ''```''"
    by (simp add: line_feed_space)
  then show ?thesis
    by (simp only: strip_close_after_text trim_def)
qed

lemma clean_response_fenced:
  assumes "fence = ''```json'' \<or> fence = ''```''"
    and "concat out = fence @ [CHR 0x0A] @ j @ [CHR 0x0A] @ ''```''"
  shows "clean_response out = trim j"
proof -
  define rest where "rest = [CHR 0x0A] @ j @ [CHR 0x0A] @ ''```''"
  have r: "rest = CHR 0x0A # j @ [CHR 0x0A] @ ''```''"
    by (simp add: rest_def)
  have c: "concat out = fence @ rest"
    using assms(2) by (simp add: rest_def)
  have "trim (fence @ rest) = fence @ rest"
  proof (rule trim_fixed)
    show "fence @ rest = [] \<or> \<not> is_space (hd (fence @ rest))"
      using assms(1) by (auto simp: backquote_not_space)
    show "fence @ rest = [] \<or> \<not> is_space (last (fence @ rest))"
      by (simp add: rest_def backquote_not_space)
  qed
  with c have t: "trim (concat out) = fence @ rest"
    by simp
  have np: "\<not> prefix ''```json'' (''```'' @ rest)"
    by (simp add: r)
  have "clean_response out = trim (strip_close (dropWhile is_space rest))"
    using assms(1) np by (auto simp: clean_response_def strip_open_def Let_def t)
  then show ?thesis
    by (simp only: rest_def strip_fenced trim_idem)
qed

lemma clean_response_bare:
  assumes "\<not> prefix ''```'' (trim (concat out))"
  shows "clean_response out = trim (concat out)"
proof -
  have "\<not> prefix ''```json'' (trim (concat out))"
    using assms by (auto simp: prefix_def)
  with assms show ?thesis
    by (simp add: clean_response_def Let_def trim_idem)
qed

lemma attempt_once_fallback_text:
  "clean_response out = clean_response out' \<Longrightarrow>
   attempt_once_fallback parse (Output out) t a n =
   attempt_once_fallback parse (Output out') t a n"
  by (simp add: attempt_once_fallback_def)

section \<open>Properties of the multipart reader\<close>



































section \<open>Properties of the handler\<close>

lemma invalid_format_distinct:
  "missing_fields ev t d \<noteq> invalid_format" "server_error m \<noteq> invalid_format"
  "success r \<noteq> invalid_format"
  by (simp_all add: missing_fields_def server_error_def success_def invalid_format_def)

lemma handler_after_fields:
  "httpMethod ev = ''POST'' \<Longrightarrow> read_request parse url_get ev = Fields t d \<Longrightarrow>
   fst (handler parse url_get run ev) \<noteq> invalid_format"
  by (auto simp: handler_def invalid_format_distinct split: prod.splits completion.splits)

lemma handler_after_raise:
  "httpMethod ev = ''POST'' \<Longrightarrow> read_request parse url_get ev = Raise m \<Longrightarrow>
   fst (handler parse url_get run ev) \<noteq> invalid_format"
  by (simp add: handler_def invalid_format_distinct)

lemma handler_after_respond:
  "httpMethod ev = ''POST'' \<Longrightarrow> read_request parse url_get ev = Respond r \<Longrightarrow>
   fst (handler parse url_get run ev) = r"
  by (simp add: handler_def)

lemma read_request_respond:
  "read_request parse url_get ev = Respond r \<longleftrightarrow>
     r = invalid_format \<and>
     \<not> str_includes (content_type_of ev) ''application/json'' \<and>
     \<not> str_includes (content_type_of ev) ''application/x-www-form-urlencoded'' \<and>
     \<not> str_includes (content_type_of ev) ''multipart/form-data'' \<and>
     isl (read_json parse (body ev))"
  by (auto simp: read_request_def Let_def split: sum.splits prod.splits)

lemma read_json_throws:
  "isl (read_json parse b) \<longleftrightarrow>
     isl (parse (parse_argument b)) \<or> parse (parse_argument b) = Inr JNull \<or>
     parse (parse_argument b) = Inr JUndefined"
proof (cases "parse (parse_argument b)")
  case (Inl m)
  then show ?thesis by (simp add: read_json_def)
next
  case (Inr v)
  then show ?thesis by (cases v) (simp_all add: read_json_def)
qed

lemma sample_event_fields:
  "read_request sample_parse url_get sample_event =
     Fields (JStr ''Senior Data Engineer'') (JStr ''5+ years of experience'')"
  by (simp add: read_request_def content_type_of_def sample_event_def read_json_def
      sample_texts sample_request_object_def)

section \<open>The claims\<close>

text \<open>
  C1. Whatever the model answers, \<open>extractJobDetailsWithRetry\<close> calls it at most
  \<open>maxRetries\<close> times, in the copy that throws and in the copy that falls back. When
  \<open>maxRetries\<close> is positive (the handler passes the default 3) and the text of every
  attempt fails to parse, the loop ends after exactly \<open>maxRetries\<close> calls and
  \<open>maxRetries - 1\<close> waits: in the first copy with the error whose message is
  \<open>Failed to extract valid JSON after\<close>, the number \<open>maxRetries\<close>,
  \<open>attempts. Last response:\<close> and the last response; in the second copy with the
  record whose \<open>job_title\<close> is \<open>jobTitle\<close>, whose \<open>city\<close>, \<open>work_arrangement\<close>,
  \<open>company\<close> and \<open>experience\<close> are \<open>null\<close> and whose \<open>error\<close> is
  \<open>Failed to parse AI response as JSON\<close>. The loop is a total function: it always
  ends.
\<close>

theorem loop_attempts_bounded:
  "calls (snd (extractJobDetailsWithRetry parse run t d n)) \<le> n \<and>
   calls (snd (extractJobDetailsWithRetry_fallback parse run t d n)) \<le> n \<and>
   (0 < n \<and> (\<forall>i. 1 \<le> i \<and> i \<le> n \<longrightarrow>
        run i = Output (out i) \<and> isl (parse (trim (concat (out i))))) \<longrightarrow>
      extractJobDetailsWithRetry parse run t d n =
        (Throw (''Failed to extract valid JSON after '' @ show_nat n @
                '' attempts. Last response: '' @ trim (concat (out n))),
         \<lparr>calls = n, waits = map (\<lambda>i. 1000 * i) [1..<n]\<rparr>)) \<and>
   (0 < n \<and> (\<forall>i. 1 \<le> i \<and> i \<le> n \<longrightarrow>
        run i = Output (out i) \<and> isl (parse (clean_response (out i)))) \<longrightarrow>
      extractJobDetailsWithRetry_fallback parse run t d n =
        (Return (JObj [(''job_title'', t), (''city'', JNull), (''work_arrangement'', JNull),
                       (''company'', JNull), (''experience'', JNull),
                       (''error'', JStr ''Failed to parse AI response as JSON'')]),
         \<lparr>calls = n, waits = map (\<lambda>i. 1000 * i) [1..<n]\<rparr>))"
proof (intro conjI impI)
  show "calls (snd (extractJobDetailsWithRetry parse run t d n)) \<le> n"
    using for_attempts_calls [of "\<lambda>a. attempt_once parse (run a) a n" n 1 "\<lparr>calls = 0, waits = []\<rparr>"]
    by (simp add: extractJobDetailsWithRetry_def)
  show "calls (snd (extractJobDetailsWithRetry_fallback parse run t d n)) \<le> n"
    using for_attempts_calls
      [of "\<lambda>a. attempt_once_fallback parse (run a) t a n" n 1 "\<lparr>calls = 0, waits = []\<rparr>"]
    by (simp add: extractJobDetailsWithRetry_fallback_def)
next
  assume h: "0 < n \<and> (\<forall>i. 1 \<le> i \<and> i \<le> n \<longrightarrow>
        run i = Output (out i) \<and> isl (parse (trim (concat (out i)))))"
  then have pass: "\<And>i. 1 \<le> i \<Longrightarrow> i \<le> n \<Longrightarrow>
      attempt_once parse (run i) i n =
        (if i = n then Some (Throw (exhausted_message n (trim (concat (out i))))) else None)"
    by (simp add: attempt_once_unparseable)
  have "for_attempts (\<lambda>a. attempt_once parse (run a) a n) n 1 \<lparr>calls = 0, waits = []\<rparr> =
          (Throw (exhausted_message n (trim (concat (out n)))),
           \<lparr>calls = calls \<lparr>calls = 0, waits = []\<rparr> + (n + 1 - 1),
            waits = waits \<lparr>calls = 0, waits = []\<rparr> @ map (\<lambda>i. 1000 * i) [1..<n]\<rparr>)"
    using h pass by (intro for_attempts_leaves) auto
  then show "extractJobDetailsWithRetry parse run t d n =
        (Throw (''Failed to extract valid JSON after '' @ show_nat n @
                '' attempts. Last response: '' @ trim (concat (out n))),
         \<lparr>calls = n, waits = map (\<lambda>i. 1000 * i) [1..<n]\<rparr>)"
    by (simp add: extractJobDetailsWithRetry_def exhausted_message_def)
next
  assume h: "0 < n \<and> (\<forall>i. 1 \<le> i \<and> i \<le> n \<longrightarrow>
        run i = Output (out i) \<and> isl (parse (clean_response (out i))))"
  then have pass: "\<And>i. 1 \<le> i \<Longrightarrow> i \<le> n \<Longrightarrow>
      attempt_once_fallback parse (run i) t i n =
        (if i = n then Some (Return (fallback_record t ''Failed to parse AI response as JSON''))
         else None)"
    by (simp add: attempt_once_fallback_unparseable)
  have "for_attempts (\<lambda>a. attempt_once_fallback parse (run a) t a n) n 1
          \<lparr>calls = 0, waits = []\<rparr> =
          (Return (fallback_record t ''Failed to parse AI response as JSON''),
           \<lparr>calls = calls \<lparr>calls = 0, waits = []\<rparr> + (n + 1 - 1),
            waits = waits \<lparr>calls = 0, waits = []\<rparr> @ map (\<lambda>i. 1000 * i) [1..<n]\<rparr>)"
    using h pass by (intro for_attempts_leaves) auto
  then show "extractJobDetailsWithRetry_fallback parse run t d n =
        (Return (JObj [(''job_title'', t), (''city'', JNull), (''work_arrangement'', JNull),
                       (''company'', JNull), (''experience'', JNull),
                       (''error'', JStr ''Failed to parse AI response as JSON'')]),
         \<lparr>calls = n, waits = map (\<lambda>i. 1000 * i) [1..<n]\<rparr>)"
    by (simp add: extractJobDetailsWithRetry_fallback_def fallback_record_def)
qed

theorem loop_attempts_bounded_witness:
  "extractJobDetailsWithRetry sample_parse (\<lambda>i. Output [''not json'']) (JStr ''T'') (JStr ''D'') 3 =
     (Throw ''Failed to extract valid JSON after 3 attempts. Last response: not json'',
      \<lparr>calls = 3, waits = [1000, 2000]\<rparr>) \<and>
   extractJobDetailsWithRetry_fallback sample_parse (\<lambda>i. Output [''not json''])
       (JStr ''T'') (JStr ''D'') 3 =
     (Return (JObj [(''job_title'', JStr ''T''), (''city'', JNull), (''work_arrangement'', JNull),
                    (''company'', JNull), (''experience'', JNull),
                    (''error'', JStr ''Failed to parse AI response as JSON'')]),
      \<lparr>calls = 3, waits = [1000, 2000]\<rparr>)"
proof -
  have a: "isl (sample_parse (trim (concat [''not json''])))"
    by (simp add: trim_def is_space_def sample_texts)
  have b: "isl (sample_parse (clean_response [''not json'']))"
    by (simp add: clean_response_def strip_open_def trim_def is_space_def sample_texts)
  have c: "trim (concat [''not json'']) = ''not json''"
    by (simp add: trim_def is_space_def)
  have u: "[1..<3] = [1, 2::nat]"
    by (simp add: upt_conv_Cons)
  have s: "show_nat 3 = ''3''"
    by (simp add: show_nat.simps)
  show ?thesis
    using a b
      loop_attempts_bounded [of sample_parse "\<lambda>i. Output [''not json'']" "JStr ''T''" "JStr ''D''" 3
        "\<lambda>i. [''not json'']"]
    by (simp only: c u s) simp
qed

text \<open>
  C2. When the texts of the attempts before attempt \<open>k\<close> fail to parse and the text of
  attempt \<open>k\<close> parses into a value that passes the validation, the loop returns that
  value at once, after \<open>k\<close> calls of the model and the \<open>k - 1\<close> waits of
  \<open>1000 * attempt\<close> ms that followed the failed attempts. For \<open>k = 3\<close> and
  \<open>maxRetries = 3\<close> these are the two waits of 1000 ms and 2000 ms (the witness).
\<close>

theorem third_attempt_succeeds:
  assumes "1 \<le> k" and "k \<le> n"
    and "\<forall>i. 1 \<le> i \<and> i < k \<longrightarrow>
           run i = Output (out i) \<and> isl (parse (trim (concat (out i))))"
    and "run k = Output (out k)"
    and "parse (trim (concat (out k))) = Inr v"
    and "schema_ok v"
  shows "extractJobDetailsWithRetry parse run t d n =
           (Return v, \<lparr>calls = k, waits = map (\<lambda>i. 1000 * i) [1..<k]\<rparr>)"
proof -
  have early: "\<And>i. 1 \<le> i \<Longrightarrow> i < k \<Longrightarrow> attempt_once parse (run i) i n = None"
    using assms(2,3) by (simp add: attempt_once_unparseable)
  have last: "attempt_once parse (run k) k n = Some (Return v)"
    using assms(4,5,6) by (simp add: attempt_once_valid)
  have "for_attempts (\<lambda>a. attempt_once parse (run a) a n) n 1 \<lparr>calls = 0, waits = []\<rparr> =
          (Return v,
           \<lparr>calls = calls \<lparr>calls = 0, waits = []\<rparr> + (k + 1 - 1),
            waits = waits \<lparr>calls = 0, waits = []\<rparr> @ map (\<lambda>i. 1000 * i) [1..<k]\<rparr>)"
    using assms(1,2) early last by (intro for_attempts_leaves) auto
  then show ?thesis
    by (simp add: extractJobDetailsWithRetry_def)
qed

text \<open>
  The case of the claim: attempts 1 and 2 answer text that is not JSON, attempt 3
  answers the sample object.
\<close>

theorem third_attempt_succeeds_witness:
  "extractJobDetailsWithRetry sample_parse
     (\<lambda>i. Output [if i = 3 then sample_answer else ''not json'']) (JStr ''T'') (JStr ''D'') 3 =
     (Return sample_object, \<lparr>calls = 3, waits = [1000, 2000]\<rparr>)"
proof -
  let ?out = "\<lambda>i::nat. [if i = 3 then sample_answer else ''not json'']"
  have early: "\<forall>i. 1 \<le> i \<and> i < 3 \<longrightarrow>
      Output (?out i) = Output (?out i) \<and> isl (sample_parse (trim (concat (?out i))))"
    by (simp add: trim_def is_space_def sample_texts)
  have parsed: "sample_parse (trim (concat (?out 3))) = Inr sample_object"
    by (simp add: trim_def is_space_def sample_texts)
  have ok: "schema_ok sample_object"
    by (simp add: schema_ok_def sample_object_def arrangements_def experiences_def)
  have u: "[1..<3] = [1, 2::nat]"
    by (simp add: upt_conv_Cons)
  show ?thesis
    using third_attempt_succeeds [of 3 3 "\<lambda>i. Output (?out i)" ?out sample_parse sample_object
        "JStr ''T''" "JStr ''D''", OF _ _ early _ parsed ok]
    by (simp only: u) simp
qed

text \<open>
  C3. The last attempt of a loop with \<open>maxRetries = 3\<close>, for the answer whose
  \<open>work_arrangement\<close> is \<open>"Hybrid"\<close>. The object fails the validation of both copies
  and is not returned, but its pass does not end as the pass of malformed output does:
  an answer that is not JSON ends the last attempt with the exhaustion policy (the
  thrown error in the first copy, the fallback record in the second), while the answer
  with \<open>"Hybrid"\<close> reaches neither \<open>catch\<close>; control goes on to the wait, and after
  three such answers the loop has run out and returns \<open>undefined\<close>, in both copies.
  What the loop does return has the two fields in range
  (\<open>returned_fields_enumerated\<close>), and no pass returns a value with an uppercase
  letter in its \<open>work_arrangement\<close> (\<open>uppercase_arrangement_refused\<close>).
\<close>

theorem uppercase_arrangement_last_attempt:
  "\<not> schema_ok sample_object_capitalized \<and>
   \<not> schema_ok_company sample_object_capitalized \<and>
   attempt_once sample_parse (Output [''not json'']) 3 3 =
     Some (Throw ''Failed to extract valid JSON after 3 attempts. Last response: not json'') \<and>
   attempt_once sample_parse (Output [sample_capitalized]) 3 3 = None \<and>
   extractJobDetailsWithRetry sample_parse (\<lambda>i. Output [sample_capitalized])
       (JStr ''T'') (JStr ''D'') 3 =
     (Return JUndefined, \<lparr>calls = 3, waits = [1000, 2000, 3000]\<rparr>) \<and>
   attempt_once_fallback sample_parse (Output [''not json'']) (JStr ''T'') 3 3 =
     Some (Return (JObj [(''job_title'', JStr ''T''), (''city'', JNull),
                         (''work_arrangement'', JNull), (''company'', JNull),
                         (''experience'', JNull),
                         (''error'', JStr ''Failed to parse AI response as JSON'')])) \<and>
   attempt_once_fallback sample_parse (Output [sample_capitalized]) (JStr ''T'') 3 3 = None \<and>
   extractJobDetailsWithRetry_fallback sample_parse (\<lambda>i. Output [sample_capitalized])
       (JStr ''T'') (JStr ''D'') 3 =
     (Return JUndefined, \<lparr>calls = 3, waits = [1000, 2000, 3000]\<rparr>)"
proof -
  have p1: "sample_parse (trim (concat [sample_capitalized])) = Inr sample_object_capitalized"
    by (simp add: trim_def is_space_def sample_texts)
  have p2: "sample_parse (clean_response [sample_capitalized]) = Inr sample_object_capitalized"
    by (simp add: clean_response_def trim_def is_space_def sample_texts)
  have q1: "isl (sample_parse (trim (concat [''not json''])))"
    by (simp add: trim_def is_space_def sample_texts)
  have q2: "isl (sample_parse (clean_response [''not json'']))"
    by (simp add: clean_response_def strip_open_def trim_def is_space_def sample_texts)
  have c2: "trim ''not json'' = ''not json''"
    by (simp add: trim_def is_space_def)
  have nn: "\<not> nullish sample_object_capitalized"
    by (simp add: sample_object_capitalized_def)
  have a: "\<not> schema_ok sample_object_capitalized"
    by (simp add: schema_ok_def sample_object_capitalized_def arrangements_def)
  have b: "\<not> schema_ok_company sample_object_capitalized"
    by (simp add: schema_ok_company_def sample_object_capitalized_def arrangements_def)
  have pass: "attempt_once sample_parse (Output [sample_capitalized]) i 3 = None" for i
    using p1 nn a by (rule attempt_once_invalid)
  have pass': "attempt_once_fallback sample_parse (Output [sample_capitalized]) (JStr ''T'') i 3 =
      None" for i
    using p2 nn b by (rule attempt_once_fallback_invalid)
  have u: "map (\<lambda>i. 1000 * i) [1..<3 + 1] = [1000, 2000, 3000::nat]"
    by (simp add: upt_conv_Cons)
  have "for_attempts (\<lambda>i. attempt_once sample_parse (Output [sample_capitalized]) i 3) 3 1
      \<lparr>calls = 0, waits = []\<rparr> =
      (Return JUndefined,
       \<lparr>calls = calls \<lparr>calls = 0, waits = []\<rparr> + (3 + 1 - 1),
        waits = waits \<lparr>calls = 0, waits = []\<rparr> @ map (\<lambda>i. 1000 * i) [1..<3 + 1]\<rparr>)"
    using pass by (intro for_attempts_runs_out) auto
  then have l: "extractJobDetailsWithRetry sample_parse (\<lambda>i. Output [sample_capitalized])
       (JStr ''T'') (JStr ''D'') 3 =
     (Return JUndefined, \<lparr>calls = 3, waits = [1000, 2000, 3000]\<rparr>)"
    unfolding u by (simp add: extractJobDetailsWithRetry_def)
  have "for_attempts
      (\<lambda>i. attempt_once_fallback sample_parse (Output [sample_capitalized]) (JStr ''T'') i 3) 3 1
      \<lparr>calls = 0, waits = []\<rparr> =
      (Return JUndefined,
       \<lparr>calls = calls \<lparr>calls = 0, waits = []\<rparr> + (3 + 1 - 1),
        waits = waits \<lparr>calls = 0, waits = []\<rparr> @ map (\<lambda>i. 1000 * i) [1..<3 + 1]\<rparr>)"
    using pass' by (intro for_attempts_runs_out) auto
  then have l': "extractJobDetailsWithRetry_fallback sample_parse
       (\<lambda>i. Output [sample_capitalized]) (JStr ''T'') (JStr ''D'') 3 =
     (Return JUndefined, \<lparr>calls = 3, waits = [1000, 2000, 3000]\<rparr>)"
    unfolding u by (simp add: extractJobDetailsWithRetry_fallback_def)
  have e: "attempt_once sample_parse (Output [''not json'']) 3 3 =
     Some (Throw ''Failed to extract valid JSON after 3 attempts. Last response: not json'')"
    using q1 by (simp add: attempt_once_unparseable c2 exhausted_message_three)
  have e': "attempt_once_fallback sample_parse (Output [''not json'']) (JStr ''T'') 3 3 =
     Some (Return (JObj [(''job_title'', JStr ''T''), (''city'', JNull),
                         (''work_arrangement'', JNull), (''company'', JNull),
                         (''experience'', JNull),
                         (''error'', JStr ''Failed to parse AI response as JSON'')]))"
    using q2 by (simp add: attempt_once_fallback_unparseable fallback_record_def)
  from a b e pass [of 3] l e' pass' [of 3] l' show ?thesis
    by (intro conjI)
qed




text \<open>
  C5, as amended. In the copy of the loop that strips fences (the one that returns a
  fallback record), an answer \<open>```json\<close>, line feed, \<open>j\<close>, line feed, \<open>```\<close> (or with a
  bare \<open>```\<close> in front) whose enclosed text \<open>j\<close> does not itself start with a fence,
  as a text \<open>{...}\<close> does not, is cleaned to \<open>j\<close> without the white space around it,
  which is also what the bare answer \<open>j\<close> is cleaned to. So every pass, and the whole
  loop, gives the same result for the fenced answers as for the bare ones, whatever
  \<open>JSON.parse\<close> does.
\<close>

theorem fenced_answer_fallback:
  assumes "\<forall>i. fence i = ''```json'' \<or> fence i = ''```''"
    and "\<forall>i. \<not> prefix ''```'' (trim (j i))"
  shows "clean_response [fence i @ [CHR 0x0A] @ j i @ [CHR 0x0A] @ ''```''] = trim (j i) \<and>
         clean_response [j i] = trim (j i) \<and>
         attempt_once_fallback parse
             (Output [fence i @ [CHR 0x0A] @ j i @ [CHR 0x0A] @ ''```'']) t a n =
           attempt_once_fallback parse (Output [j i]) t a n \<and>
         extractJobDetailsWithRetry_fallback parse
             (\<lambda>i. Output [fence i @ [CHR 0x0A] @ j i @ [CHR 0x0A] @ ''```'']) t d n =
           extractJobDetailsWithRetry_fallback parse (\<lambda>i. Output [j i]) t d n"
proof -
  have fenced: "clean_response [fence i @ [CHR 0x0A] @ j i @ [CHR 0x0A] @ ''```''] = trim (j i)"
    for i
    using assms(1) by (intro clean_response_fenced [of "fence i"]) auto
  have bare: "clean_response [j i] = trim (j i)" for i
    using assms(2) clean_response_bare [of "[j i]"] by simp
  have pass: "attempt_once_fallback parse
             (Output [fence i @ [CHR 0x0A] @ j i @ [CHR 0x0A] @ ''```'']) t a n =
           attempt_once_fallback parse (Output [j i]) t a n" for i a
    by (rule attempt_once_fallback_text) (simp only: fenced bare)
  have "(\<lambda>a. attempt_once_fallback parse
             (Output [fence a @ [CHR 0x0A] @ j a @ [CHR 0x0A] @ ''```'']) t a n) =
        (\<lambda>a. attempt_once_fallback parse (Output [j a]) t a n)"
    by (rule ext) (rule pass)
  then have "extractJobDetailsWithRetry_fallback parse
             (\<lambda>i. Output [fence i @ [CHR 0x0A] @ j i @ [CHR 0x0A] @ ''```'']) t d n =
           extractJobDetailsWithRetry_fallback parse (\<lambda>i. Output [j i]) t d n"
    by (simp only: extractJobDetailsWithRetry_fallback_def)
  with fenced bare pass show ?thesis
    by blast
qed

text \<open>
  The sample answer inside either fence is returned after one call.
\<close>

theorem fenced_answer_fallback_witness:
  "clean_response [''```json'' @ [CHR 0x0A] @ sample_answer_company @ [CHR 0x0A] @ ''```''] =
     sample_answer_company \<and>
   extractJobDetailsWithRetry_fallback sample_parse
     (\<lambda>i. Output [''```json'' @ [CHR 0x0A] @ sample_answer_company @ [CHR 0x0A] @ ''```''])
     (JStr ''T'') (JStr ''D'') 3 =
     (Return sample_object_company, \<lparr>calls = 1, waits = []\<rparr>) \<and>
   extractJobDetailsWithRetry_fallback sample_parse
     (\<lambda>i. Output [''```'' @ [CHR 0x0A] @ sample_answer_company @ [CHR 0x0A] @ ''```''])
     (JStr ''T'') (JStr ''D'') 3 =
     (Return sample_object_company, \<lparr>calls = 1, waits = []\<rparr>)"
proof -
  have tr: "trim sample_answer_company = sample_answer_company"
    by (simp add: trim_def is_space_def sample_answer_company_def)
  have np: "\<forall>i::nat. \<not> prefix ''```'' (trim sample_answer_company)"
    by (simp add: tr) (simp add: sample_answer_company_def)
  have bare: "extractJobDetailsWithRetry_fallback sample_parse
      (\<lambda>i. Output [sample_answer_company]) (JStr ''T'') (JStr ''D'') 3 =
      (Return sample_object_company, \<lparr>calls = 1, waits = []\<rparr>)"
    by (simp add: extractJobDetailsWithRetry_fallback_def for_attempts.simps
        attempt_once_fallback_def clean_response_def trim_def is_space_def sample_texts
        schema_ok_company_def sample_object_company_def arrangements_def experiences_def)
  have f1: "\<forall>i::nat. ''```json'' = ''```json'' \<or> ''```json'' = ''```''"
    and f2: "\<forall>i::nat. ''```'' = ''```json'' \<or> ''```'' = ''```''"
    by simp_all
  show ?thesis
    using fenced_answer_fallback [of "\<lambda>i. ''```json''" "\<lambda>i. sample_answer_company", OF f1 np,
        of sample_parse "JStr ''T''" 1 3 "JStr ''D''"]
      fenced_answer_fallback [of "\<lambda>i. ''```''" "\<lambda>i. sample_answer_company", OF f2 np,
        of sample_parse "JStr ''T''" 1 3 "JStr ''D''"]
    by (simp only: bare tr)
qed

text \<open>
  C5 as stated fails for the loop of netlify/functions/extract-job-details.js, which has
  no fence stripping: the fenced sample answer is handed to \<open>JSON.parse\<close> as it is,
  fails to parse on each of the three attempts and ends in the thrown error, while the
  same answer sent bare is returned after one call.
\<close>

theorem fenced_answer_counterexample:
  "extractJobDetailsWithRetry sample_parse
     (\<lambda>i. Output [''```json'' @ [CHR 0x0A] @ sample_answer @ [CHR 0x0A] @ ''```''])
     (JStr ''T'') (JStr ''D'') 3 =
     (Throw (exhausted_message 3 (''```json'' @ [CHR 0x0A] @ sample_answer @ [CHR 0x0A] @ ''```'')),
      \<lparr>calls = 3, waits = [1000, 2000]\<rparr>) \<and>
   extractJobDetailsWithRetry sample_parse (\<lambda>i. Output [sample_answer])
     (JStr ''T'') (JStr ''D'') 3 =
     (Return sample_object, \<lparr>calls = 1, waits = []\<rparr>)"
  by (simp add: extractJobDetailsWithRetry_def for_attempts.simps attempt_once_def trim_def
      is_space_def sample_texts schema_ok_def sample_object_def arrangements_def
      experiences_def)

text \<open>
  C6. A \<open>POST\<close> request whose body was read (the reading neither threw nor responded)
  and in which, after the fallback to the query string, \<open>job_title\<close> or
  \<open>job_description\<close> is still falsy (missing, \<open>null\<close> or empty) gets status 400 with
  the error message that names the two fields, the object \<open>received\<close> that echoes each
  field (\<open>null\<close> for a falsy one) and the \<open>debug\<close> object; the loop is not called.
\<close>

theorem missing_fields_rejected:
  assumes "httpMethod ev = ''POST''"
    and "read_request parse url_get ev = Fields t0 d0"
    and "query_fallback ev (t0, d0) = (t, d)"
    and "\<not> truthy t \<or> \<not> truthy d"
  shows "handler parse url_get run ev =
           (\<lparr>statusCode = 400, resp_headers = cors_headers,
             resp_body = Stringify (JObj
               [(''error'', JStr ''Missing required fields: job_title and job_description''),
                (''received'', JObj
                   [(''job_title'', if truthy t then t else JNull),
                    (''job_description'', if truthy d then d else JNull)]),
                (''debug'', debug_info ev)])\<rparr>,
            None)"
  using assms by (auto simp: handler_def missing_fields_def js_or_def)

text \<open>
  A multipart request whose body object has a title and no description.
\<close>

theorem missing_fields_rejected_witness:
  "handler sample_parse (\<lambda>b k. None) (\<lambda>i. Output [sample_answer]) sample_object_event =
     (\<lparr>statusCode = 400, resp_headers = cors_headers,
       resp_body = Stringify (JObj
         [(''error'', JStr ''Missing required fields: job_title and job_description''),
          (''received'', JObj
             [(''job_title'', JStr ''Senior Data Engineer''), (''job_description'', JNull)]),
          (''debug'', JObj
             [(''contentType'', JStr ''multipart/form-data; boundary=x''),
              (''bodyType'', JStr ''object''),
              (''bodyPreview'', JStr ''Not a string''),
              (''queryParams'', JObj [])])])\<rparr>,
      None)"
proof -
  have m: "httpMethod sample_object_event = ''POST''"
    by (simp add: sample_object_event_def)
  have r: "read_request sample_parse (\<lambda>b k. None) sample_object_event =
      Fields (JStr ''Senior Data Engineer'') JUndefined"
    by (simp add: read_request_def content_type_of_def sample_object_event_def
        read_multipart_def)
  have q: "query_fallback sample_object_event (JStr ''Senior Data Engineer'', JUndefined) =
      (JStr ''Senior Data Engineer'', JUndefined)"
    by (simp add: query_fallback_def sample_object_event_def js_or_def)
  have e: "\<not> truthy (JStr ''Senior Data Engineer'') \<or> \<not> truthy JUndefined"
    by simp
  have g: "debug_info sample_object_event =
      JObj [(''contentType'', JStr ''multipart/form-data; boundary=x''),
            (''bodyType'', JStr ''object''),
            (''bodyPreview'', JStr ''Not a string''),
            (''queryParams'', JObj [])]"
    by (simp add: debug_info_def sample_object_event_def)
  show ?thesis
    using missing_fields_rejected [OF m r q e, of "\<lambda>i. Output [sample_answer]"]
    by (simp add: g)
qed



text \<open>
  C8. A request whose method is \<open>OPTIONS\<close> gets status 200, an empty body and the CORS
  headers, whatever its headers and body are and whatever the parsers and the model
  would do: neither the reading of the body nor the loop is reached. A request whose
  method is neither \<open>OPTIONS\<close> nor \<open>POST\<close> gets status 405 and the body
  \<open>{"error": "Method not allowed"}\<close>.
\<close>

theorem method_dispatch:
  "(httpMethod ev = ''OPTIONS'' \<longrightarrow>
      handler parse url_get run ev =
        (\<lparr>statusCode = 200,
          resp_headers =
            [(''Access-Control-Allow-Origin'', ''*''),
             (''Access-Control-Allow-Headers'', ''Content-Type''),
             (''Access-Control-Allow-Methods'', ''POST, OPTIONS''),
             (''Content-Type'', ''application/json'')],
          resp_body = Text []\<rparr>, None)) \<and>
   (httpMethod ev \<noteq> ''OPTIONS'' \<and> httpMethod ev \<noteq> ''POST'' \<longrightarrow>
      handler parse url_get run ev =
        (\<lparr>statusCode = 405, resp_headers = cors_headers,
          resp_body = Stringify (JObj [(''error'', JStr ''Method not allowed'')])\<rparr>, None))"
  by (simp add: handler_def preflight_def method_not_allowed_def cors_headers_def)

text \<open>
  An \<open>OPTIONS\<close> and a \<open>GET\<close> request.
\<close>

theorem method_dispatch_witness:
  "handler sample_parse (\<lambda>b k. None) (\<lambda>i. Output [sample_answer])
       (sample_event\<lparr>httpMethod := ''OPTIONS''\<rparr>) =
     (\<lparr>statusCode = 200,
       resp_headers =
         [(''Access-Control-Allow-Origin'', ''*''),
          (''Access-Control-Allow-Headers'', ''Content-Type''),
          (''Access-Control-Allow-Methods'', ''POST, OPTIONS''),
          (''Content-Type'', ''application/json'')],
       resp_body = Text []\<rparr>, None) \<and>
   handler sample_parse (\<lambda>b k. None) (\<lambda>i. Output [sample_answer])
       (sample_event\<lparr>httpMethod := ''GET''\<rparr>) =
     (\<lparr>statusCode = 405, resp_headers = cors_headers,
       resp_body = Stringify (JObj [(''error'', JStr ''Method not allowed'')])\<rparr>, None)"
  using method_dispatch [of "sample_event\<lparr>httpMethod := ''OPTIONS''\<rparr>" sample_parse
      "\<lambda>b k. None" "\<lambda>i. Output [sample_answer]"]
    method_dispatch [of "sample_event\<lparr>httpMethod := ''GET''\<rparr>" sample_parse
      "\<lambda>b k. None" "\<lambda>i. Output [sample_answer]"]
  by simp

text \<open>
  C9. In the copy that throws, when the text of every attempt parses to a value (not
  \<open>null\<close>) that fails the validation, the function neither throws nor returns a
  record: every pass reaches the wait, also the last one (\<open>maxRetries\<close> waits, the
  last of \<open>1000 * maxRetries\<close> ms), and the function returns \<open>undefined\<close>. The
  handler, which calls it with the default 3, then responds with status 200 and the
  body \<open>JSON.stringify(undefined)\<close>.
\<close>

theorem invalid_schema_runs_out:
  assumes "\<forall>i. 1 \<le> i \<and> i \<le> n \<longrightarrow>
      run i = Output (out i) \<and> parse (trim (concat (out i))) = Inr (v i) \<and>
      \<not> nullish (v i) \<and> \<not> schema_ok (v i)"
  shows "extractJobDetailsWithRetry parse run t d n =
           (Return JUndefined, \<lparr>calls = n, waits = map (\<lambda>i. 1000 * i) [1..<n + 1]\<rparr>) \<and>
         (n = 3 \<and> httpMethod ev = ''POST'' \<and> read_request parse url_get ev = Fields t0 d0 \<and>
          query_fallback ev (t0, d0) = (t, d) \<and> truthy t \<and> truthy d \<longrightarrow>
            handler parse url_get run ev =
              (\<lparr>statusCode = 200, resp_headers = cors_headers,
                resp_body = Stringify JUndefined\<rparr>,
               Some (t, d, \<lparr>calls = 3, waits = [1000, 2000, 3000]\<rparr>)))"
proof -
  have pass: "\<And>i. 1 \<le> i \<Longrightarrow> i \<le> n \<Longrightarrow> attempt_once parse (run i) i n = None"
    using assms by (simp add: attempt_once_invalid)
  have "for_attempts (\<lambda>a. attempt_once parse (run a) a n) n 1 \<lparr>calls = 0, waits = []\<rparr> =
          (Return JUndefined,
           \<lparr>calls = calls \<lparr>calls = 0, waits = []\<rparr> + (n + 1 - 1),
            waits = waits \<lparr>calls = 0, waits = []\<rparr> @ map (\<lambda>i. 1000 * i) [1..<n + 1]\<rparr>)"
    using pass by (intro for_attempts_runs_out) auto
  then have loop: "extractJobDetailsWithRetry parse run t d n =
      (Return JUndefined, \<lparr>calls = n, waits = map (\<lambda>i. 1000 * i) [1..<n + 1]\<rparr>)"
    by (simp add: extractJobDetailsWithRetry_def)
  have u: "map (\<lambda>i. 1000 * i) [1..<3 + 1] = [1000, 2000, 3000::nat]"
    by (simp add: upt_conv_Cons)
  show ?thesis
  proof (intro conjI impI)
    show "extractJobDetailsWithRetry parse run t d n =
      (Return JUndefined, \<lparr>calls = n, waits = map (\<lambda>i. 1000 * i) [1..<n + 1]\<rparr>)"
      by (rule loop)
  next
    assume h: "n = 3 \<and> httpMethod ev = ''POST'' \<and> read_request parse url_get ev = Fields t0 d0 \<and>
          query_fallback ev (t0, d0) = (t, d) \<and> truthy t \<and> truthy d"
    with loop have "extractJobDetailsWithRetry parse run t d 3 =
        (Return JUndefined, \<lparr>calls = 3, waits = [1000, 2000, 3000]\<rparr>)"
      by (simp only: u)
    with h show "handler parse url_get run ev =
              (\<lparr>statusCode = 200, resp_headers = cors_headers,
                resp_body = Stringify JUndefined\<rparr>,
               Some (t, d, \<lparr>calls = 3, waits = [1000, 2000, 3000]\<rparr>))"
      by (simp add: handler_def success_def)
  qed
qed

text \<open>
  Three answers with \<open>"Hybrid"\<close> to a well-formed JSON request.
\<close>

theorem invalid_schema_runs_out_witness:
  "extractJobDetailsWithRetry sample_parse (\<lambda>i. Output [sample_capitalized])
     (JStr ''Senior Data Engineer'') (JStr ''5+ years of experience'') 3 =
     (Return JUndefined, \<lparr>calls = 3, waits = [1000, 2000, 3000]\<rparr>) \<and>
   handler sample_parse (\<lambda>b k. None) (\<lambda>i. Output [sample_capitalized]) sample_event =
     (\<lparr>statusCode = 200, resp_headers = cors_headers, resp_body = Stringify JUndefined\<rparr>,
      Some (JStr ''Senior Data Engineer'', JStr ''5+ years of experience'',
            \<lparr>calls = 3, waits = [1000, 2000, 3000]\<rparr>))"
proof -
  have a: "\<forall>i. 1 \<le> i \<and> i \<le> 3 \<longrightarrow>
      Output [sample_capitalized] = Output [sample_capitalized] \<and>
      sample_parse (trim (concat [sample_capitalized])) = Inr sample_object_capitalized \<and>
      \<not> nullish sample_object_capitalized \<and> \<not> schema_ok sample_object_capitalized"
    by (simp add: trim_def is_space_def sample_texts sample_object_capitalized_def schema_ok_def
        arrangements_def)
  have q: "query_fallback sample_event
      (JStr ''Senior Data Engineer'', JStr ''5+ years of experience'') =
      (JStr ''Senior Data Engineer'', JStr ''5+ years of experience'')"
    by (simp add: query_fallback_def sample_event_def)
  have m: "httpMethod sample_event = ''POST''"
    by (simp add: sample_event_def)
  have u: "map (\<lambda>i. 1000 * i) [1..<3 + 1] = [1000, 2000, 3000::nat]"
    by (simp add: upt_conv_Cons)
  show ?thesis
    using invalid_schema_runs_out [of 3 "\<lambda>i. Output [sample_capitalized]"
        "\<lambda>i. [sample_capitalized]" sample_parse "\<lambda>i. sample_object_capitalized"
        "JStr ''Senior Data Engineer''" "JStr ''5+ years of experience''" sample_event
        "\<lambda>b k. None" "JStr ''Senior Data Engineer''" "JStr ''5+ years of experience''", OF a]
      q m sample_event_fields [of "\<lambda>b k. None"]
    by (simp only: u) simp
qed

text \<open>
  C10, as amended. The content type is the value under \<open>content-type\<close> when that is a
  string that is not empty, else the value under \<open>Content-Type\<close>, else the empty
  string. A value that contains \<open>application/json\<close> (the test is on the characters as
  they are) selects the JSON branch, where an error is thrown to the \<open>catch\<close> of the
  handler. A value that contains none of the three names, the empty one included,
  selects the default branch. The response 400 "Invalid request format" is returned
  exactly when the default branch is taken and its \<open>try\<close> block throws: \<open>JSON.parse\<close>
  throws, or it returns \<open>null\<close> (\<open>undefined\<close> is listed for the parser as a
  parameter; \<open>JSON.parse\<close> does not return it) and the read of \<open>job_title\<close> throws
  inside the same \<open>try\<close>.
\<close>

theorem content_type_dispatch:
  "(headers ev ''content-type'' = Some v \<and> v \<noteq> [] \<longrightarrow> content_type_of ev = v) \<and>
   (headers ev ''content-type'' = None \<and> headers ev ''Content-Type'' = Some w \<longrightarrow>
      content_type_of ev = w) \<and>
   (headers ev ''content-type'' = None \<and> headers ev ''Content-Type'' = None \<longrightarrow>
      content_type_of ev = []) \<and>
   (str_includes (content_type_of ev) ''application/json'' \<longrightarrow>
      read_request parse url_get ev =
        (case read_json parse (body ev) of
           Inl m \<Rightarrow> Raise m | Inr (t, d) \<Rightarrow> Fields t d)) \<and>
   (\<not> str_includes (content_type_of ev) ''application/json'' \<and>
    \<not> str_includes (content_type_of ev) ''application/x-www-form-urlencoded'' \<and>
    \<not> str_includes (content_type_of ev) ''multipart/form-data'' \<longrightarrow>
      read_request parse url_get ev =
        (case read_json parse (body ev) of
           Inl m \<Rightarrow> Respond invalid_format | Inr (t, d) \<Rightarrow> Fields t d)) \<and>
   (httpMethod ev = ''POST'' \<longrightarrow>
      (fst (handler parse url_get run ev) = invalid_format) =
        (\<not> str_includes (content_type_of ev) ''application/json'' \<and>
         \<not> str_includes (content_type_of ev) ''application/x-www-form-urlencoded'' \<and>
         \<not> str_includes (content_type_of ev) ''multipart/form-data'' \<and>
         (isl (parse (parse_argument (body ev))) \<or>
          parse (parse_argument (body ev)) = Inr JNull \<or>
          parse (parse_argument (body ev)) = Inr JUndefined)))"
proof (intro conjI impI)
  assume post: "httpMethod ev = ''POST''"
  show "(fst (handler parse url_get run ev) = invalid_format) =
        (\<not> str_includes (content_type_of ev) ''application/json'' \<and>
         \<not> str_includes (content_type_of ev) ''application/x-www-form-urlencoded'' \<and>
         \<not> str_includes (content_type_of ev) ''multipart/form-data'' \<and>
         (isl (parse (parse_argument (body ev))) \<or>
          parse (parse_argument (body ev)) = Inr JNull \<or>
          parse (parse_argument (body ev)) = Inr JUndefined))"
  proof (cases "read_request parse url_get ev")
    case (Fields t d)
    with post have "fst (handler parse url_get run ev) \<noteq> invalid_format"
      by (rule handler_after_fields)
    moreover from Fields have "\<not> (\<exists>r. read_request parse url_get ev = Respond r)"
      by simp
    ultimately show ?thesis
      unfolding read_request_respond read_json_throws by blast
  next
    case (Raise m)
    with post have "fst (handler parse url_get run ev) \<noteq> invalid_format"
      by (rule handler_after_raise)
    moreover from Raise have "\<not> (\<exists>r. read_request parse url_get ev = Respond r)"
      by simp
    ultimately show ?thesis
      unfolding read_request_respond read_json_throws by blast
  next
    case (Respond r)
    with post have "fst (handler parse url_get run ev) = r"
      by (rule handler_after_respond)
    moreover from Respond have "r = invalid_format \<and>
     \<not> str_includes (content_type_of ev) ''application/json'' \<and>
     \<not> str_includes (content_type_of ev) ''application/x-www-form-urlencoded'' \<and>
     \<not> str_includes (content_type_of ev) ''multipart/form-data'' \<and>
     isl (read_json parse (body ev))"
      by (simp add: read_request_respond)
    ultimately show ?thesis
      by (simp add: read_json_throws)
  qed
qed (auto simp: content_type_of_def read_request_def Let_def split: sum.splits prod.splits)

text \<open>
  The sample request in the JSON branch, and a request without a content type. The
  containment test finds the name anywhere in the value and tells upper from lower
  case.
\<close>

theorem content_type_dispatch_witness:
  "content_type_of sample_event = ''application/json'' \<and>
   read_request sample_parse (\<lambda>b k. None) sample_event =
     Fields (JStr ''Senior Data Engineer'') (JStr ''5+ years of experience'') \<and>
   content_type_of sample_null_event = [] \<and>
   read_request sample_parse (\<lambda>b k. None) sample_null_event = Respond invalid_format \<and>
   fst (handler sample_parse (\<lambda>b k. None) (\<lambda>i. Output [sample_answer]) sample_null_event) =
     invalid_format \<and>
   str_includes ''text/plain; note=application/json'' ''application/json'' \<and>
   \<not> str_includes ''Application/JSON'' ''application/json''"
proof -
  have a: "headers sample_event ''content-type'' = Some ''application/json''"
    "httpMethod sample_event = ''POST''"
    "read_json sample_parse (body sample_event) =
       Inr (JStr ''Senior Data Engineer'', JStr ''5+ years of experience'')"
    by (simp_all add: sample_event_def read_json_def sample_texts sample_request_object_def)
  have b: "headers sample_null_event ''content-type'' = None"
    "headers sample_null_event ''Content-Type'' = None"
    "httpMethod sample_null_event = ''POST''"
    "read_json sample_parse (body sample_null_event) = Inl null_read_message"
    "sample_parse (parse_argument (body sample_null_event)) = Inr JNull"
    by (simp_all add: sample_null_event_def read_json_def sample_texts)
  show ?thesis
    using a b
      content_type_dispatch [of sample_event "''application/json''" "[]" sample_parse
        "\<lambda>b k. None" "\<lambda>i. Output [sample_answer]"]
      content_type_dispatch [of sample_null_event "[]" "[]" sample_parse
        "\<lambda>b k. None" "\<lambda>i. Output [sample_answer]"]
    by simp
qed

text \<open>
  C10 as stated fails: for a \<open>POST\<close> request without a content type whose body is the
  text \<open>null\<close>, the default \<open>JSON.parse\<close> does not throw (it returns \<open>null\<close>), and the
  response is 400 "Invalid request format" all the same.
\<close>

theorem default_parse_counterexample:
  "sample_parse (parse_argument (body sample_null_event)) = Inr JNull \<and>
   handler sample_parse (\<lambda>b k. None) (\<lambda>i. Rejected []) sample_null_event =
     (invalid_format, None) \<and>
   statusCode invalid_format = 400"
  by (simp add: handler_def read_request_def content_type_of_def read_json_def
      sample_null_event_def sample_texts invalid_format_def)

end
